theory Spec2Isabelle
  imports Complex_Main
begin

section \<open>Parkest: the parking capacity estimator\<close>

text \<open>
  A shallow embedding of \<^verbatim>\<open>backend/parking_time_estimators/estimator.py\<close>.
  Python floats are read as real numbers and the arithmetic of the search-time formula
  is exact, without infinities or NaN. The encoding of the hour is the exception: it is
  evaluated in double precision, since what it returns for the hours 0 and 24 is decided
  by the rounding.
\<close>

subsection \<open>Module constants\<close>

definition FIXED_SEARCH_TIME :: real where
  "FIXED_SEARCH_TIME = 2.5"

definition TIME_PER_SPOT :: real where
  "TIME_PER_SPOT = 1.2"

definition TIME_PENALTY :: real where
  "TIME_PENALTY = 10"

subsection \<open>Values, exceptions and results\<close>

text \<open>A cell of a table: a string or a number.\<close>

datatype cell = Str string | Num real

text \<open>The exceptions that the modelled calls can raise, by their Python names.\<close>

datatype error =
    FileNotFoundError string
  | KeyError string
  | TypeError
  | ValueError
  | NotFittedError
  | AttributeError
  | IndexError
  | ZeroDivisionError

type_synonym 'a result = "error + 'a"

definition bnd :: "'a result \<Rightarrow> ('a \<Rightarrow> 'b result) \<Rightarrow> 'b result" where
  "bnd r f = (case r of Inl e \<Rightarrow> Inl e | Inr v \<Rightarrow> f v)"

fun traverse :: "('a \<Rightarrow> 'b result) \<Rightarrow> 'a list \<Rightarrow> 'b list result" where
  "traverse f [] = Inr []"
| "traverse f (x # xs) = bnd (f x) (\<lambda>y. bnd (traverse f xs) (\<lambda>ys. Inr (y # ys)))"

text \<open>Python's float division: dividing by zero raises.\<close>

definition py_truediv :: "real \<Rightarrow> real \<Rightarrow> real result" where
  "py_truediv a b = (if b = 0 then Inl ZeroDivisionError else Inr (a / b))"

subsection \<open>Data frames\<close>

text \<open>
  Modelled from the spec: pandas is not part of the repository. Its DataFrame is the
  table of section 6 of the specification, kept column by column: the number of rows of
  its index and the named columns in their order; every column of a frame read from a
  file has \<open>nrows\<close> cells. The operations are the ones the source calls.
\<close>

record dataframe =
  nrows :: nat
  columns :: "(string \<times> cell list) list"

text \<open>\<^verbatim>\<open>df[c]\<close>: a missing column raises KeyError.\<close>

definition getitem :: "dataframe \<Rightarrow> string \<Rightarrow> cell list result" where
  "getitem df c = (case map_of (columns df) c of
     None \<Rightarrow> Inl (KeyError c) | Some vs \<Rightarrow> Inr vs)"

text \<open>\<^verbatim>\<open>df[c] = vs\<close>: replaces the column, or appends it after the others.\<close>

fun assign :: "string \<Rightarrow> cell list \<Rightarrow> (string \<times> cell list) list \<Rightarrow> (string \<times> cell list) list" where
  "assign c vs [] = [(c, vs)]"
| "assign c vs ((k, ws) # cs) = (if k = c then (c, vs) # cs else (k, ws) # assign c vs cs)"

definition setitem :: "dataframe \<Rightarrow> string \<Rightarrow> cell list \<Rightarrow> dataframe" where
  "setitem df c vs = df\<lparr>columns := assign c vs (columns df)\<rparr>"

text \<open>\<^verbatim>\<open>df[[c1, ..., cn]]\<close>: the listed columns, in the listed order.\<close>

definition select :: "dataframe \<Rightarrow> string list \<Rightarrow> dataframe result" where
  "select df cs = bnd (traverse (getitem df) cs)
     (\<lambda>vss. Inr \<lparr>nrows = nrows df, columns = zip cs vss\<rparr>)"

text \<open>The rows of a list of columns.\<close>

definition rows_of :: "nat \<Rightarrow> 'a list list \<Rightarrow> 'a list list" where
  "rows_of n cols = map (\<lambda>i. map (\<lambda>vs. vs ! i) cols) [0..<n]"

text \<open>Arithmetic on a column: a string cell raises TypeError.\<close>

definition arith_cell :: "cell \<Rightarrow> real result" where
  "arith_cell v = (case v of Num r \<Rightarrow> Inr r | Str s \<Rightarrow> Inl TypeError)"

text \<open>Conversion of a column to a float array when fitting: a string cell raises ValueError.\<close>

definition float_cell :: "cell \<Rightarrow> real result" where
  "float_cell v = (case v of Num r \<Rightarrow> Inr r | Str s \<Rightarrow> Inl ValueError)"

subsection \<open>Double precision\<close>

text \<open>
  Rounding of a real number to the nearest double, ties to the even significand: the
  significand has 53 bits. The exponent is not bounded, so the model has no overflow and
  no subnormal numbers.
\<close>

definition rne :: "real \<Rightarrow> int" where
  "rne x = (let f = \<lfloor>x\<rfloor>; d = x - of_int f
            in if d < 1 / 2 then f else if 1 / 2 < d then f + 1
               else if even f then f else f + 1)"

definition fl :: "real \<Rightarrow> real" where
  "fl x = (if x = 0 then 0
           else let q = 2 powr of_int (\<lfloor>log 2 \<bar>x\<bar>\<rfloor> - 52)
                in q * of_int (rne (x / q)))"

text \<open>\<^verbatim>\<open>np.pi\<close>: the double nearest to \<open>pi\<close>, \<^verbatim>\<open>0x1.921fb54442d18p+1\<close>.\<close>

definition np_pi :: real where
  "np_pi = 884279719003555 / 2 ^ 48"

text \<open>
  \<^verbatim>\<open>np.sin\<close> and \<^verbatim>\<open>np.cos\<close> are NumPy's, not the repository's: they are taken
  as the correctly rounded sine and cosine. The theorems below use two facts of them
  only: the relative error of a result is at most \<open>1 / 2 ^ 53\<close>, and a result is
  zero only where the function is.
\<close>

definition np_sin :: "real \<Rightarrow> real" where
  "np_sin x = fl (sin x)"

definition np_cos :: "real \<Rightarrow> real" where
  "np_cos x = fl (cos x)"

subsection \<open>The cyclical encoding of the hour\<close>

text \<open>
  \<^verbatim>\<open>np.sin(2 * np.pi * hour / 24)\<close> and its cosine, operation by operation: the
  product \<open>2 * np.pi\<close>, the product with the hour and the quotient by 24 are each
  rounded.
\<close>

definition hour_sin :: "real \<Rightarrow> real" where
  "hour_sin hour = np_sin (fl (fl (fl (2 * np_pi) * hour) / 24))"

definition hour_cos :: "real \<Rightarrow> real" where
  "hour_cos hour = np_cos (fl (fl (fl (2 * np_pi) * hour) / 24))"

subsection \<open>The library objects used by the estimator\<close>

text \<open>
  Modelled from the spec: the estimator calls pandas and scikit-learn, whose code is not
  part of the repository. Their objects are modelled from sections 4.2, 4.3 and 9 of the
  specification: a one-hot encoder with a vocabulary fixed when fitted, a column
  transformer that encodes one categorical column and passes the numeric ones through,
  and a tree-ensemble regressor that is an opaque capability \<open>fit\<close>/\<open>predict\<close>.
\<close>

text \<open>\<^verbatim>\<open>pd.read_csv\<close>: the file system maps a path to the table stored there.\<close>

definition read_csv :: "(string \<Rightarrow> dataframe option) \<Rightarrow> string \<Rightarrow> dataframe result" where
  "read_csv fs path = (case fs path of
     None \<Rightarrow> Inl (FileNotFoundError path) | Some df \<Rightarrow> Inr df)"

datatype unknown_policy = Raise_unknown | Ignore_unknown

record one_hot_encoder =
  handle_unknown :: unknown_policy
  categories :: "cell list option"

definition OneHotEncoder :: "unknown_policy \<Rightarrow> one_hot_encoder" where
  "OneHotEncoder h = \<lparr>handle_unknown = h, categories = None\<rparr>"

text \<open>The distinct values of a column, in the order of their discovery.\<close>

fun discover :: "cell list \<Rightarrow> cell list \<Rightarrow> cell list" where
  "discover seen [] = seen"
| "discover seen (v # vs) = discover (if v \<in> set seen then seen else seen @ [v]) vs"

definition OneHotEncoder_fit :: "one_hot_encoder \<Rightarrow> cell list \<Rightarrow> one_hot_encoder" where
  "OneHotEncoder_fit enc col = enc\<lparr>categories := Some (discover [] col)\<rparr>"

definition indicator :: "cell list \<Rightarrow> cell \<Rightarrow> real list" where
  "indicator cats v = map (\<lambda>c. if c = v then 1 else 0) cats"

definition encode_cell :: "unknown_policy \<Rightarrow> cell list \<Rightarrow> cell \<Rightarrow> real list result" where
  "encode_cell h cats v =
     (if v \<in> set cats then Inr (indicator cats v)
      else (case h of
          Raise_unknown \<Rightarrow> Inl ValueError
        | Ignore_unknown \<Rightarrow> Inr (replicate (length cats) 0)))"

definition OneHotEncoder_transform :: "one_hot_encoder \<Rightarrow> cell list \<Rightarrow> real list list result" where
  "OneHotEncoder_transform enc col = (case categories enc of
     None \<Rightarrow> Inl NotFittedError
   | Some cats \<Rightarrow> traverse (encode_cell (handle_unknown enc) cats) col)"

text \<open>
  The column transformer of the source has two parts: \<open>cat\<close>, the encoder of the one
  categorical column, and \<open>num\<close>, the columns passed through.
\<close>

record column_transformer =
  cat :: one_hot_encoder
  cat_column :: string
  num_columns :: "string list"

definition ColumnTransformer :: "one_hot_encoder \<Rightarrow> string \<Rightarrow> string list \<Rightarrow> column_transformer" where
  "ColumnTransformer enc c ns = \<lparr>cat = enc, cat_column = c, num_columns = ns\<rparr>"

text \<open>The encoded block first, then the numeric columns, row by row.\<close>

definition design_rows :: "nat \<Rightarrow> real list list \<Rightarrow> real list list \<Rightarrow> real list list" where
  "design_rows n onehot nums = map2 (@) onehot (rows_of n nums)"

text \<open>Fitting on a table with no rows raises ValueError.\<close>

definition ColumnTransformer_fit_transform ::
    "column_transformer \<Rightarrow> dataframe \<Rightarrow> (column_transformer \<times> real list list) result" where
  "ColumnTransformer_fit_transform ct X =
     bnd (getitem X (cat_column ct)) (\<lambda>catcol.
     bnd (traverse (getitem X) (num_columns ct)) (\<lambda>numcols.
     if nrows X = 0 then Inl ValueError
     else
       let enc = OneHotEncoder_fit (cat ct) catcol in
       bnd (OneHotEncoder_transform enc catcol) (\<lambda>onehot.
       bnd (traverse (traverse float_cell) numcols) (\<lambda>nums.
       Inr (ct\<lparr>cat := enc\<rparr>, design_rows (nrows X) onehot nums)))))"

definition ColumnTransformer_transform ::
    "column_transformer \<Rightarrow> dataframe \<Rightarrow> real list list result" where
  "ColumnTransformer_transform ct X =
     bnd (getitem X (cat_column ct)) (\<lambda>catcol.
     bnd (traverse (getitem X) (num_columns ct)) (\<lambda>numcols.
     bnd (OneHotEncoder_transform (cat ct) catcol) (\<lambda>onehot.
     bnd (traverse (traverse float_cell) numcols) (\<lambda>nums.
     Inr (design_rows (nrows X) onehot nums)))))"

text \<open>
  The regressor. Growing the trees is opaque: a function \<open>grow\<close> of the number of
  trees, the depth bound, the state of the random number generator, the design matrix and
  the targets, which returns the fitted ensemble as its prediction function. The
  generator is the one seeded with \<open>random_state\<close> when it is given, and the ambient
  generator of the process otherwise.
\<close>

datatype rng = RandomState nat

record random_forest_regressor =
  n_estimators :: nat
  max_depth :: nat
  random_state :: "nat option"
  forest :: "(real list \<Rightarrow> real) option"

type_synonym grower =
  "nat \<Rightarrow> nat \<Rightarrow> rng \<Rightarrow> real list list \<Rightarrow> real list \<Rightarrow> (real list \<Rightarrow> real)"

definition RandomForestRegressor :: "nat \<Rightarrow> nat \<Rightarrow> nat option \<Rightarrow> random_forest_regressor" where
  "RandomForestRegressor n d s =
     \<lparr>n_estimators = n, max_depth = d, random_state = s, forest = None\<rparr>"

definition RandomForestRegressor_fit ::
    "grower \<Rightarrow> rng \<Rightarrow> random_forest_regressor \<Rightarrow> real list list \<Rightarrow> real list
       \<Rightarrow> random_forest_regressor" where
  "RandomForestRegressor_fit grow ambient reg Xt y =
     (let g = (case random_state reg of Some seed \<Rightarrow> RandomState seed | None \<Rightarrow> ambient)
      in reg\<lparr>forest := Some (grow (n_estimators reg) (max_depth reg) g Xt y)\<rparr>)"

definition RandomForestRegressor_predict ::
    "random_forest_regressor \<Rightarrow> real list list \<Rightarrow> real list result" where
  "RandomForestRegressor_predict reg Xt = (case forest reg of
     None \<Rightarrow> Inl NotFittedError | Some f \<Rightarrow> Inr (map f Xt))"

record pipeline =
  preprocessor_step :: column_transformer
  regressor_step :: random_forest_regressor

definition Pipeline :: "column_transformer \<Rightarrow> random_forest_regressor \<Rightarrow> pipeline" where
  "Pipeline ct reg = \<lparr>preprocessor_step = ct, regressor_step = reg\<rparr>"

definition Pipeline_fit ::
    "grower \<Rightarrow> rng \<Rightarrow> pipeline \<Rightarrow> dataframe \<Rightarrow> cell list \<Rightarrow> pipeline result" where
  "Pipeline_fit grow ambient m X y =
     bnd (ColumnTransformer_fit_transform (preprocessor_step m) X) (\<lambda>(ct, Xt).
     bnd (traverse float_cell y) (\<lambda>ys.
     Inr \<lparr>preprocessor_step = ct,
          regressor_step = RandomForestRegressor_fit grow ambient (regressor_step m) Xt ys\<rparr>))"

definition Pipeline_predict :: "pipeline \<Rightarrow> dataframe \<Rightarrow> real list result" where
  "Pipeline_predict m X =
     bnd (ColumnTransformer_transform (preprocessor_step m) X) (\<lambda>Xt.
     RandomForestRegressor_predict (regressor_step m) Xt)"

subsection \<open>The estimator\<close>

record estimator =
  csv_path :: string
  model :: "pipeline option"
  preprocessor :: "column_transformer option"

text \<open>
  \<^verbatim>\<open>_load_and_train\<close>. The pipeline holds the very transformer object that
  \<open>self.preprocessor\<close> names, so after a fit both fields show the fitted transformer.
  An exception leaves the method, and the constructor, without a result.
\<close>

definition load_and_train ::
    "(string \<Rightarrow> dataframe option) \<Rightarrow> grower \<Rightarrow> rng \<Rightarrow> estimator \<Rightarrow> estimator result" where
  "load_and_train fs grow ambient self =
     bnd (read_csv fs (csv_path self)) (\<lambda>df.
     bnd (getitem df ''hour'') (\<lambda>hour.
     bnd (traverse arith_cell hour) (\<lambda>hs.
     let df = setitem df ''hour_sin'' (map (\<lambda>h. Num (hour_sin h)) hs) in
     bnd (getitem df ''hour'') (\<lambda>hour.
     bnd (traverse arith_cell hour) (\<lambda>hs.
     let df = setitem df ''hour_cos'' (map (\<lambda>h. Num (hour_cos h)) hs);
         features = [''day_type'', ''total_capacity'', ''latitude'', ''longitude'',
                     ''hour_sin'', ''hour_cos''];
         target = ''occupancy_rate''
     in
     bnd (select df features) (\<lambda>X.
     bnd (getitem df target) (\<lambda>y.
     let pre = ColumnTransformer (OneHotEncoder Ignore_unknown) ''day_type''
                 [''total_capacity'', ''latitude'', ''longitude'', ''hour_sin'', ''hour_cos''];
         m = Pipeline pre (RandomForestRegressor 300 12 (Some 42))
     in
     bnd (Pipeline_fit grow ambient m X y) (\<lambda>m'.
     Inr (self\<lparr>model := Some m', preprocessor := Some (preprocessor_step m')\<rparr>)))))))))"

text \<open>\<^verbatim>\<open>__init__\<close>: the constructor call \<^verbatim>\<open>ParkingCapacityEstimator(csv_path)\<close>.\<close>

definition init ::
    "(string \<Rightarrow> dataframe option) \<Rightarrow> grower \<Rightarrow> rng \<Rightarrow> string \<Rightarrow> estimator result" where
  "init fs grow ambient path =
     load_and_train fs grow ambient \<lparr>csv_path = path, model = None, preprocessor = None\<rparr>"

text \<open>
  \<^verbatim>\<open>predict\<close> and \<^verbatim>\<open>predict_search_time\<close> are methods: each takes the
  estimator and returns its result together with the estimator as the call leaves it.
\<close>

definition predict ::
    "estimator \<Rightarrow> cell \<Rightarrow> real \<Rightarrow> real \<Rightarrow> real \<Rightarrow> real \<Rightarrow> real result \<times> estimator" where
  "predict self day_type hour total_capacity latitude longitude =
     (let hour_sin = hour_sin hour;
          hour_cos = hour_cos hour;
          X_new = \<lparr>nrows = 1, columns =
            [(''day_type'', [day_type]),
             (''total_capacity'', [Num total_capacity]),
             (''latitude'', [Num latitude]),
             (''longitude'', [Num longitude]),
             (''hour_sin'', [Num hour_sin]),
             (''hour_cos'', [Num hour_cos])]\<rparr>
      in (case model self of
            None \<Rightarrow> Inl AttributeError
          | Some m \<Rightarrow> bnd (Pipeline_predict m X_new) (\<lambda>ys.
              case ys of [] \<Rightarrow> Inl IndexError | y # _ \<Rightarrow> Inr y),
          self))"

definition predict_search_time ::
    "estimator \<Rightarrow> cell \<Rightarrow> real \<Rightarrow> real \<Rightarrow> real \<Rightarrow> real \<Rightarrow> real result \<times> estimator" where
  "predict_search_time self day_type hour total_capacity latitude longitude =
     (case predict self day_type hour total_capacity latitude longitude of
        (Inl e, self') \<Rightarrow> (Inl e, self')
      | (Inr p_occupied, self') \<Rightarrow>
          (let p_free = 1 - p_occupied in
           bnd (if p_free < 0.001 then Inr (total_capacity * 2) else py_truediv 1 p_free)
             (\<lambda>expected_spots.
               let total_time = expected_spots * TIME_PER_SPOT + FIXED_SEARCH_TIME;
                   total_time = (if p_free < 0.05 then total_time + TIME_PENALTY
                                 else total_time)
               in Inr total_time),
           self'))"

text \<open>A sequence of calls of the two query methods on one estimator.\<close>

datatype call =
    Predict cell real real real real
  | PredictSearchTime cell real real real real

fun run_call :: "estimator \<Rightarrow> call \<Rightarrow> real result \<times> estimator" where
  "run_call self (Predict d h c la lo) = predict self d h c la lo"
| "run_call self (PredictSearchTime d h c la lo) = predict_search_time self d h c la lo"

fun run_calls :: "estimator \<Rightarrow> call list \<Rightarrow> real result list \<times> estimator" where
  "run_calls self [] = ([], self)"
| "run_calls self (c # cs) =
     (case run_call self c of (r, self') \<Rightarrow>
        (case run_calls self' cs of (rs, self'') \<Rightarrow> (r # rs, self'')))"

text \<open>The column transformer of the source, once fitted on a \<open>day_type\<close> column.\<close>

definition fitted_pre :: "cell list \<Rightarrow> column_transformer" where
  "fitted_pre day = \<lparr>cat = \<lparr>handle_unknown = Ignore_unknown, categories = Some (discover [] day)\<rparr>,
     cat_column = ''day_type'',
     num_columns = [''total_capacity'', ''latitude'', ''longitude'', ''hour_sin'', ''hour_cos'']\<rparr>"

text \<open>The columns that the training table has to have.\<close>

definition required_columns :: "string list" where
  "required_columns = [''day_type'', ''hour'', ''total_capacity'', ''latitude'', ''longitude'',
     ''occupancy_rate'']"

text \<open>
  Modelled from the spec: section 7 names the failures of the training data
  DataShapeError (a required column absent, an empty table, a value that is not a number
  in a numeric column). The source defines no exception of its own; these failures reach
  the caller as the KeyError, TypeError and ValueError of the libraries.
\<close>

definition DataShapeError :: "error \<Rightarrow> bool" where
  "DataShapeError e = (case e of
     KeyError c \<Rightarrow> True | TypeError \<Rightarrow> True | ValueError \<Rightarrow> True | _ \<Rightarrow> False)"

subsection \<open>A small training table\<close>

text \<open>
  A table of one record with a given occupancy rate, a file system that holds it, a
  header-only table, a table without the \<open>latitude\<close> column, and a degenerate ensemble
  whose every tree is one leaf with the mean target. They instantiate the theorems below.
\<close>

definition demo_frame :: "real \<Rightarrow> dataframe" where
  "demo_frame occ = \<lparr>nrows = 1, columns =
     [(''day_type'', [Str ''SA'']), (''hour'', [Num 18]), (''total_capacity'', [Num 100]),
      (''latitude'', [Num 48.14]), (''longitude'', [Num 11.54]),
      (''occupancy_rate'', [Num occ])]\<rparr>"

definition demo_fs :: "real \<Rightarrow> string \<Rightarrow> dataframe option" where
  "demo_fs occ path = (if path = ''data.csv'' then Some (demo_frame occ) else None)"

definition empty_frame :: dataframe where
  "empty_frame = \<lparr>nrows = 0, columns =
     [(''day_type'', []), (''hour'', []), (''total_capacity'', []),
      (''latitude'', []), (''longitude'', []), (''occupancy_rate'', [])]\<rparr>"

definition no_latitude_frame :: dataframe where
  "no_latitude_frame = \<lparr>nrows = 1, columns =
     [(''day_type'', [Str ''SA'']), (''hour'', [Num 18]), (''total_capacity'', [Num 100]),
      (''longitude'', [Num 11.54]), (''occupancy_rate'', [Num 0.5])]\<rparr>"

definition mean_grower :: grower where
  "mean_grower n d g Xt ys = (\<lambda>x. sum_list ys / real (length ys))"

definition demo_estimator :: "real \<Rightarrow> estimator" where
  "demo_estimator occ = \<lparr>csv_path = ''data.csv'',
     model = Some \<lparr>preprocessor_step = fitted_pre [Str ''SA''],
       regressor_step = \<lparr>n_estimators = 300, max_depth = 12, random_state = Some 42,
         forest = Some (\<lambda>x. occ)\<rparr>\<rparr>,
     preprocessor = Some (fitted_pre [Str ''SA''])\<rparr>"

section \<open>Properties\<close>

subsection \<open>Results and frames\<close>

lemma bnd_Inr [simp]: "bnd (Inr x) f = f x"
  by (simp add: bnd_def)

lemma bnd_Inl [simp]: "bnd (Inl e) f = Inl e"
  by (simp add: bnd_def)

lemma bnd_eq_Inr: "bnd r f = Inr v \<longleftrightarrow> (\<exists>x. r = Inr x \<and> f x = Inr v)"
  by (cases r) simp_all

lemma bnd_eq_Inl: "bnd r f = Inl e \<longleftrightarrow> r = Inl e \<or> (\<exists>x. r = Inr x \<and> f x = Inl e)"
  by (cases r) simp_all

lemma traverse_Inl: "traverse f xs = Inl e \<Longrightarrow> \<exists>x \<in> set xs. f x = Inl e"
  by (induction xs) (auto simp: bnd_eq_Inl)

lemma map_of_assign: "map_of (assign c vs cs) k = (if k = c then Some vs else map_of cs k)"
  by (induction cs) auto

lemma getitem_setitem:
  "getitem (setitem df c vs) k = (if k = c then Inr vs else getitem df k)"
  by (simp add: getitem_def setitem_def map_of_assign)

lemma nrows_setitem [simp]: "nrows (setitem df c vs) = nrows df"
  by (simp add: setitem_def)

lemma getitem_Inr: "getitem df c = Inr vs \<longleftrightarrow> map_of (columns df) c = Some vs"
  by (simp add: getitem_def split: option.splits)

lemma set_discover: "set (discover seen vs) = set seen \<union> set vs"
  by (induction vs arbitrary: seen) auto

subsection \<open>The query methods\<close>

lemma predict_state: "snd (predict self d h c la lo) = self"
  by (simp add: predict_def Let_def)

lemma predict_pair: "predict self d h c la lo = (fst (predict self d h c la lo), self)"
  using predict_state [of self d h c la lo] by (simp add: prod_eq_iff)

text \<open>The two outcomes of \<open>predict_search_time\<close>, by the outcome of \<open>predict\<close>.\<close>

lemma search_time_of_error:
  assumes "fst (predict self d h c la lo) = Inl e"
  shows "predict_search_time self d h c la lo = (Inl e, self)"
proof -
  have "predict self d h c la lo = (Inl e, self)"
    using assms predict_pair [of self d h c la lo] by simp
  then show ?thesis by (simp add: predict_search_time_def)
qed

lemma search_time_of_occupancy:
  assumes "fst (predict self d h c la lo) = Inr p"
  shows "predict_search_time self d h c la lo =
    (Inr ((if 1 - p < 0.001 then c * 2 else 1 / (1 - p)) * 1.2 + 2.5
          + (if 1 - p < 0.05 then 10 else 0)), self)"
proof -
  have "predict self d h c la lo = (Inr p, self)"
    using assms predict_pair [of self d h c la lo] by simp
  then show ?thesis
    by (simp add: predict_search_time_def py_truediv_def Let_def
        TIME_PER_SPOT_def FIXED_SEARCH_TIME_def TIME_PENALTY_def)
qed

lemma search_time_state: "snd (predict_search_time self d h c la lo) = self"
  by (cases "fst (predict self d h c la lo)")
    (simp_all add: search_time_of_error search_time_of_occupancy)

lemma run_call_state: "snd (run_call self k) = self"
  by (cases k) (simp_all add: predict_state search_time_state)

lemma search_time_mono:
  fixes u v q r :: real
  assumes "u \<le> v" and "q \<le> r"
  shows "u * 1.2 + 2.5 + q \<le> v * 1.2 + 2.5 + r"
  using assms by simp

subsection \<open>Construction\<close>

text \<open>What a successful construction returns.\<close>

lemma init_fitted:
  assumes "init fs grow g path = Inr self"
  shows "\<exists>df day f. fs path = Some df \<and> getitem df ''day_type'' = Inr day
     \<and> 0 < nrows df
     \<and> self = \<lparr>csv_path = path,
          model = Some \<lparr>preprocessor_step = fitted_pre day,
            regressor_step = \<lparr>n_estimators = 300, max_depth = 12, random_state = Some 42,
              forest = Some f\<rparr>\<rparr>,
          preprocessor = Some (fitted_pre day)\<rparr>"
  using assms
  by (auto simp: init_def load_and_train_def read_csv_def bnd_eq_Inr Let_def select_def
      Pipeline_fit_def Pipeline_def ColumnTransformer_fit_transform_def ColumnTransformer_def
      OneHotEncoder_def OneHotEncoder_fit_def RandomForestRegressor_def
      RandomForestRegressor_fit_def getitem_setitem fitted_pre_def getitem_Inr
      split: option.splits if_splits)

text \<open>A fitted estimator answers every query with the regressor's value on the encoded row.\<close>

lemma predict_fitted:
  assumes "model self = Some \<lparr>preprocessor_step = fitted_pre day, regressor_step = reg\<rparr>"
    and "forest reg = Some f"
  shows "fst (predict self d h c la lo) =
    Inr (f ((if d \<in> set day then indicator (discover [] day) d
             else replicate (length (discover [] day)) 0)
            @ [c, la, lo, hour_sin h, hour_cos h]))"
  using assms
  by (simp add: predict_def Pipeline_predict_def ColumnTransformer_transform_def getitem_def
      fitted_pre_def OneHotEncoder_transform_def encode_cell_def float_cell_def
      design_rows_def rows_of_def RandomForestRegressor_predict_def set_discover)

lemma transform_unseen:
  assumes "d \<notin> set day"
  shows "OneHotEncoder_transform (cat (fitted_pre day)) [d] =
    Inr [replicate (length (discover [] day)) 0]"
  using assms
  by (simp add: fitted_pre_def OneHotEncoder_transform_def encode_cell_def set_discover)

text \<open>Without a seed the fitted ensemble is grown from the ambient generator.\<close>

lemma unseeded_fit_uses_ambient:
  "forest (RandomForestRegressor_fit grow g (RandomForestRegressor n d None) Xt y)
     = Some (grow n d g Xt y)"
  by (simp add: RandomForestRegressor_fit_def RandomForestRegressor_def)

text \<open>Every exception of the training is one of the class DataShapeError.\<close>

lemma getitem_shape: "getitem df c = Inl e \<Longrightarrow> DataShapeError e"
  by (auto simp: getitem_def DataShapeError_def split: option.splits)

lemma getitems_shape: "traverse (getitem df) cs = Inl e \<Longrightarrow> DataShapeError e"
  by (auto dest!: traverse_Inl getitem_shape)

lemma arith_shape: "traverse arith_cell vs = Inl e \<Longrightarrow> DataShapeError e"
  by (auto dest!: traverse_Inl simp: arith_cell_def DataShapeError_def split: cell.splits)

lemma float_shape: "traverse float_cell vs = Inl e \<Longrightarrow> DataShapeError e"
  by (auto dest!: traverse_Inl simp: float_cell_def DataShapeError_def split: cell.splits)

lemma floats_shape: "traverse (traverse float_cell) vss = Inl e \<Longrightarrow> DataShapeError e"
  by (auto dest!: traverse_Inl float_shape)

lemma ignore_never_raises:
  "OneHotEncoder_transform \<lparr>handle_unknown = Ignore_unknown, categories = Some cats\<rparr> col \<noteq> Inl e"
  by (auto simp: OneHotEncoder_transform_def encode_cell_def dest!: traverse_Inl split: if_splits)

lemma fit_transform_shape:
  assumes "ColumnTransformer_fit_transform ct X = Inl e"
    and "handle_unknown (cat ct) = Ignore_unknown"
  shows "DataShapeError e"
proof -
  have enc: "OneHotEncoder_fit (cat ct) col
      = \<lparr>handle_unknown = Ignore_unknown, categories = Some (discover [] col)\<rparr>" for col
    using assms(2) by (simp add: OneHotEncoder_fit_def)
  show ?thesis
    using assms(1)
    by (auto simp: ColumnTransformer_fit_transform_def bnd_eq_Inl Let_def enc ignore_never_raises
        DataShapeError_def
        dest: getitem_shape getitems_shape floats_shape split: if_splits)
qed

lemma pipeline_fit_shape:
  assumes "Pipeline_fit grow g m X y = Inl e"
    and "handle_unknown (cat (preprocessor_step m)) = Ignore_unknown"
  shows "DataShapeError e"
  using assms
  by (auto simp: Pipeline_fit_def bnd_eq_Inl dest: fit_transform_shape float_shape)

lemma select_shape: "select df cs = Inl e \<Longrightarrow> DataShapeError e"
  by (auto simp: select_def bnd_eq_Inl dest: getitems_shape)

lemma init_error_shape:
  assumes "init fs grow g path = Inl e" and "fs path = Some df"
  shows "DataShapeError e"
  using assms
  by (auto simp: init_def load_and_train_def read_csv_def bnd_eq_Inl Let_def
      Pipeline_def ColumnTransformer_def OneHotEncoder_def
      dest: getitem_shape arith_shape select_shape pipeline_fit_shape)

text \<open>A construction that succeeds had a table with a row and with every required column.\<close>

lemma init_columns:
  assumes "init fs grow g path = Inr self" and "fs path = Some df"
  shows "0 < nrows df \<and> (\<forall>c \<in> set required_columns. map_of (columns df) c \<noteq> None)"
  using assms
  by (auto simp: init_def load_and_train_def read_csv_def bnd_eq_Inr Let_def select_def
      Pipeline_fit_def Pipeline_def ColumnTransformer_fit_transform_def ColumnTransformer_def
      getitem_setitem getitem_Inr required_columns_def
      split: option.splits if_splits)

lemma demo_init: "init (demo_fs occ) mean_grower g ''data.csv'' = Inr (demo_estimator occ)"
  by (simp add: init_def load_and_train_def read_csv_def demo_fs_def demo_frame_def
      getitem_def setitem_def select_def arith_cell_def float_cell_def Let_def
      Pipeline_fit_def Pipeline_def ColumnTransformer_fit_transform_def ColumnTransformer_def
      OneHotEncoder_def OneHotEncoder_fit_def OneHotEncoder_transform_def encode_cell_def
      RandomForestRegressor_def RandomForestRegressor_fit_def mean_grower_def
      demo_estimator_def fitted_pre_def)

lemma demo_predict: "fst (predict (demo_estimator occ) d h c la lo) = Inr occ"
  by (simp add: predict_fitted [where day = "[Str ''SA'']" and f = "\<lambda>x. occ"] demo_estimator_def)

subsection \<open>Double precision and the hour encoding\<close>



lemma fl_zero [simp]: "fl 0 = 0"
  by (simp add: fl_def)











lemma hour_arg_0: "fl (fl (fl (2 * np_pi) * 0) / 24) = 0"
  by simp











subsection \<open>The claims\<close>

text \<open>
  C1. For every input, \<open>predict_search_time\<close> takes \<open>p_free = 1 - predict(...)\<close>;
  the expected number of spots is \<open>total_capacity * 2\<close> when \<open>p_free < 0.001\<close> and
  \<open>1 / p_free\<close> otherwise; the time is that number times 1.2 plus 2.5, plus a flat 10
  when \<open>p_free < 0.05\<close>. Both thresholds are compared with \<open>p_free\<close>. The division
  never raises, an exception of \<open>predict\<close> is passed on, and the estimator is returned
  as it was.
\<close>

theorem predict_search_time_formula:
  "predict_search_time self d h c la lo =
     (case fst (predict self d h c la lo) of
        Inl e \<Rightarrow> (Inl e, self)
      | Inr p_occupied \<Rightarrow>
          (let p_free = 1 - p_occupied;
               expected_spots = (if p_free < 0.001 then c * 2 else 1 / p_free);
               total_time = expected_spots * 1.2 + 2.5
           in (Inr (if p_free < 0.05 then total_time + 10 else total_time), self)))"
proof (cases "fst (predict self d h c la lo)")
  case (Inl e)
  then show ?thesis by (simp add: search_time_of_error)
next
  case (Inr p)
  then show ?thesis by (simp add: search_time_of_occupancy Let_def)
qed

text \<open>The scenario of the specification with \<open>p_free = 0.5\<close>: the time is 4.9, with no penalty.\<close>

theorem predict_search_time_formula_witness:
  "predict_search_time (demo_estimator 0.5) (Str ''SA'') 18 100 48.14 11.54
     = (Inr 4.9, demo_estimator 0.5)"
  using predict_search_time_formula [of "demo_estimator 0.5" "Str ''SA''" 18 100 "48.14" "11.54"]
  by (simp add: demo_predict)

text \<open>
  C2. The claim: with the other arguments fixed, the search time never decreases when the
  predicted occupancy increases. It fails for a capacity below 500: with capacity 100,
  occupancy 0.999 (\<open>p_free = 0.001\<close>) gives 1212.5 and the higher occupancy 0.9995 (the
  fallback branch) gives 252.5.
\<close>

theorem search_time_not_monotone:
  "init (demo_fs 0.999) mean_grower (RandomState 0) ''data.csv'' = Inr (demo_estimator 0.999)
   \<and> init (demo_fs 0.9995) mean_grower (RandomState 0) ''data.csv'' = Inr (demo_estimator 0.9995)
   \<and> fst (predict (demo_estimator 0.999) (Str ''SA'') 18 100 48.14 11.54) = Inr 0.999
   \<and> fst (predict (demo_estimator 0.9995) (Str ''SA'') 18 100 48.14 11.54) = Inr 0.9995
   \<and> (0.999::real) \<le> 0.9995
   \<and> fst (predict_search_time (demo_estimator 0.999) (Str ''SA'') 18 100 48.14 11.54) = Inr 1212.5
   \<and> fst (predict_search_time (demo_estimator 0.9995) (Str ''SA'') 18 100 48.14 11.54) = Inr 252.5
   \<and> \<not> ((1212.5::real) \<le> 252.5)"
proof -
  have a: "fst (predict_search_time (demo_estimator 0.999) (Str ''SA'') 18 100 48.14 11.54)
      = Inr 1212.5"
    by (simp add: search_time_of_occupancy [OF demo_predict])
  have b: "fst (predict_search_time (demo_estimator 0.9995) (Str ''SA'') 18 100 48.14 11.54)
      = Inr 252.5"
    by (simp add: search_time_of_occupancy [OF demo_predict])
  show ?thesis
    by (simp only: demo_init demo_predict a b) simp
qed

text \<open>
  C2, amended. For occupancies \<open>p1 \<le> p2\<close> the search time for \<open>p1\<close> is at most the one
  for \<open>p2\<close> when both lie on the same side of the fallback threshold (\<open>1 - p2 \<ge> 0.001\<close>,
  or \<open>1 - p1 < 0.001\<close>), or when the capacity is at least 500.
\<close>

theorem search_time_monotone_amended:
  assumes "fst (predict self1 d h c la lo) = Inr p1"
    and "fst (predict self2 d h c la lo) = Inr p2"
    and "p1 \<le> p2"
    and "0.001 \<le> 1 - p2 \<or> 1 - p1 < 0.001 \<or> 500 \<le> c"
  shows "\<exists>t1 t2. fst (predict_search_time self1 d h c la lo) = Inr t1
    \<and> fst (predict_search_time self2 d h c la lo) = Inr t2 \<and> t1 \<le> t2"
proof -
  have spots: "(if 1 - p1 < 0.001 then c * 2 else 1 / (1 - p1))
      \<le> (if 1 - p2 < 0.001 then c * 2 else 1 / (1 - p2))"
  proof (cases "1 - p2 < 0.001")
    case False
    then have f2: "0.001 \<le> 1 - p2" by simp
    with assms(3) have f1: "0.001 \<le> 1 - p1" by simp
    have "1 / (1 - p1) \<le> 1 / (1 - p2)"
      using f2 assms(3) by (intro frac_le) simp_all
    with f1 f2 show ?thesis by simp
  next
    case True
    show ?thesis
    proof (cases "1 - p1 < 0.001")
      case True
      with \<open>1 - p2 < 0.001\<close> show ?thesis by simp
    next
      case False
      with assms(4) \<open>1 - p2 < 0.001\<close> have c: "500 \<le> c" by simp
      from False have f1: "0.001 \<le> 1 - p1" by simp
      have "1 / (1 - p1) \<le> 1 / 0.001"
        using f1 by (intro frac_le) simp_all
      then have "1 / (1 - p1) \<le> 1000" by simp
      with c have "1 / (1 - p1) \<le> c * 2" by simp
      with False \<open>1 - p2 < 0.001\<close> show ?thesis by simp
    qed
  qed
  have penalty: "(if 1 - p1 < 0.05 then 10 else 0) \<le> (if 1 - p2 < 0.05 then 10 else (0::real))"
    using assms(3) by simp
  have "fst (predict_search_time self1 d h c la lo)
      = Inr ((if 1 - p1 < 0.001 then c * 2 else 1 / (1 - p1)) * 1.2 + 2.5
          + (if 1 - p1 < 0.05 then 10 else 0))"
    by (simp only: search_time_of_occupancy [OF assms(1)] fst_conv)
  moreover have "fst (predict_search_time self2 d h c la lo)
      = Inr ((if 1 - p2 < 0.001 then c * 2 else 1 / (1 - p2)) * 1.2 + 2.5
          + (if 1 - p2 < 0.05 then 10 else 0))"
    by (simp only: search_time_of_occupancy [OF assms(2)] fst_conv)
  ultimately show ?thesis
    using search_time_mono [OF spots penalty] by blast
qed

text \<open>With capacity 500 the occupancies 0.999 and 0.9995 give times in the right order.\<close>

theorem search_time_monotone_amended_witness:
  "fst (predict (demo_estimator 0.999) (Str ''SA'') 18 500 48.14 11.54) = Inr 0.999
   \<and> fst (predict (demo_estimator 0.9995) (Str ''SA'') 18 500 48.14 11.54) = Inr 0.9995
   \<and> (0.999::real) \<le> 0.9995
   \<and> (500::real) \<le> 500
   \<and> (\<exists>t1 t2. fst (predict_search_time (demo_estimator 0.999) (Str ''SA'') 18 500 48.14 11.54) = Inr t1
        \<and> fst (predict_search_time (demo_estimator 0.9995) (Str ''SA'') 18 500 48.14 11.54) = Inr t2
        \<and> t1 \<le> t2)"
proof -
  have p1: "fst (predict (demo_estimator 0.999) (Str ''SA'') 18 500 48.14 11.54) = Inr 0.999"
    by (rule demo_predict)
  have p2: "fst (predict (demo_estimator 0.9995) (Str ''SA'') 18 500 48.14 11.54) = Inr 0.9995"
    by (rule demo_predict)
  have le: "(0.999::real) \<le> 0.9995" by simp
  have side: "0.001 \<le> 1 - (0.9995::real) \<or> 1 - (0.999::real) < 0.001 \<or> (500::real) \<le> 500"
    by simp
  from search_time_monotone_amended [OF p1 p2 le side] p1 p2 le show ?thesis by simp
qed

text \<open>
  C3. When the predicted occupancy gives \<open>p_free = 0.0005\<close> and the capacity is 100,
  \<open>predict_search_time\<close> returns 252.5.
\<close>

theorem near_full_example:
  assumes "fst (predict self d h 100 la lo) = Inr p" and "1 - p = 0.0005"
  shows "fst (predict_search_time self d h 100 la lo) = Inr 252.5"
  using assms by (simp add: search_time_of_occupancy)

text \<open>An estimator trained on one record with occupancy 0.9995 predicts that occupancy.\<close>

theorem near_full_example_witness:
  "fst (predict (demo_estimator 0.9995) (Str ''SA'') 18 100 48.14 11.54) = Inr 0.9995
   \<and> 1 - (0.9995::real) = 0.0005
   \<and> fst (predict_search_time (demo_estimator 0.9995) (Str ''SA'') 18 100 48.14 11.54) = Inr 252.5"
proof -
  have p: "fst (predict (demo_estimator 0.9995) (Str ''SA'') 18 100 48.14 11.54) = Inr 0.9995"
    by (rule demo_predict)
  have q: "1 - (0.9995::real) = 0.0005" by simp
  from p q near_full_example [OF p q] show ?thesis by simp
qed

text \<open>
  C4. For a \<open>day_type\<close> that does not occur in the \<open>day_type\<close> column of the training
  table, \<open>predict\<close> on a constructed estimator raises nothing and returns a number: the
  fitted encoder maps the unseen category to a row of zeros.
\<close>

theorem predict_unseen_day_type:
  assumes "init fs grow g path = Inr self"
    and "fs path = Some df"
    and "getitem df ''day_type'' = Inr day"
    and "d \<notin> set day"
  shows "\<exists>m cats v. model self = Some m
    \<and> categories (cat (preprocessor_step m)) = Some cats
    \<and> d \<notin> set cats
    \<and> OneHotEncoder_transform (cat (preprocessor_step m)) [d] = Inr [replicate (length cats) 0]
    \<and> fst (predict self d h c la lo) = Inr v"
proof -
  from init_fitted [OF assms(1)] assms(2,3) obtain f where
    self: "self = \<lparr>csv_path = path,
          model = Some \<lparr>preprocessor_step = fitted_pre day,
            regressor_step = \<lparr>n_estimators = 300, max_depth = 12, random_state = Some 42,
              forest = Some f\<rparr>\<rparr>,
          preprocessor = Some (fitted_pre day)\<rparr>"
    by auto
  let ?reg = "\<lparr>n_estimators = 300, max_depth = 12, random_state = Some 42, forest = Some f\<rparr>"
  let ?m = "\<lparr>preprocessor_step = fitted_pre day, regressor_step = ?reg\<rparr>"
  have m: "model self = Some ?m" by (simp add: self)
  have c: "categories (cat (preprocessor_step ?m)) = Some (discover [] day)"
    by (simp add: fitted_pre_def)
  have u: "d \<notin> set (discover [] day)" using assms(4) by (simp add: set_discover)
  have t: "OneHotEncoder_transform (cat (preprocessor_step ?m)) [d]
      = Inr [replicate (length (discover [] day)) 0]"
    using transform_unseen [OF assms(4)] by simp
  have p: "\<exists>v. fst (predict self d h c la lo) = Inr v"
    using predict_fitted [OF m, of f d h c la lo] by simp
  from m c u t p show ?thesis by blast
qed

text \<open>Trained on the day type \<open>SA\<close> alone, the estimator answers a query for \<open>XX\<close>.\<close>

theorem predict_unseen_day_type_witness:
  "init (demo_fs 0.5) mean_grower (RandomState 0) ''data.csv'' = Inr (demo_estimator 0.5)
   \<and> demo_fs 0.5 ''data.csv'' = Some (demo_frame 0.5)
   \<and> getitem (demo_frame 0.5) ''day_type'' = Inr [Str ''SA'']
   \<and> Str ''XX'' \<notin> set [Str ''SA'']
   \<and> (\<exists>m cats v. model (demo_estimator 0.5) = Some m
        \<and> categories (cat (preprocessor_step m)) = Some cats
        \<and> Str ''XX'' \<notin> set cats
        \<and> OneHotEncoder_transform (cat (preprocessor_step m)) [Str ''XX'']
             = Inr [replicate (length cats) 0]
        \<and> fst (predict (demo_estimator 0.5) (Str ''XX'') 18 100 48.14 11.54) = Inr v)"
proof -
  have a: "init (demo_fs 0.5) mean_grower (RandomState 0) ''data.csv'' = Inr (demo_estimator 0.5)"
    by (rule demo_init)
  have b: "demo_fs 0.5 ''data.csv'' = Some (demo_frame 0.5)"
    by (simp add: demo_fs_def)
  have c: "getitem (demo_frame 0.5) ''day_type'' = Inr [Str ''SA'']"
    by (simp add: getitem_def demo_frame_def)
  have d: "Str ''XX'' \<notin> set [Str ''SA'']" by simp
  from a b c d predict_unseen_day_type [OF a b c d, of 18 100 "48.14" "11.54"]
  show ?thesis by blast
qed

text \<open>
  C5. Training is deterministic: the regressor is configured with 300 trees, depth 12 and
  \<open>random_state = 42\<close>, so the constructed estimator, and with it every prediction, does
  not depend on the state of the ambient random number generator. Two constructions from
  the same data agree.
\<close>

theorem training_deterministic:
  "init fs grow g1 path = init fs grow g2 path
   \<and> map_sum id (\<lambda>self. fst (predict self d h c la lo)) (init fs grow g1 path)
     = map_sum id (\<lambda>self. fst (predict self d h c la lo)) (init fs grow g2 path)"
proof -
  have "init fs grow g1 path = init fs grow g2 path"
    by (simp add: init_def load_and_train_def Pipeline_fit_def Pipeline_def
        RandomForestRegressor_fit_def RandomForestRegressor_def)
  then show ?thesis by simp
qed

text \<open>Two constructions under different states of the ambient generator.\<close>

theorem training_deterministic_witness:
  "init (demo_fs 0.5) mean_grower (RandomState 1) ''data.csv''
     = init (demo_fs 0.5) mean_grower (RandomState 2) ''data.csv''
   \<and> map_sum id (\<lambda>self. fst (predict self (Str ''SA'') 18 100 48.14 11.54))
        (init (demo_fs 0.5) mean_grower (RandomState 1) ''data.csv'')
     = map_sum id (\<lambda>self. fst (predict self (Str ''SA'') 18 100 48.14 11.54))
        (init (demo_fs 0.5) mean_grower (RandomState 2) ''data.csv'')"
  by (rule training_deterministic)

text \<open>
  C6. \<open>predict\<close> returns the output of the fitted regressor on the encoded query row as
  it is, with no clamping to the interval from 0 to 1; for some training data and query
  the value returned lies outside that interval.
\<close>

theorem predict_returns_raw_output:
  "(init fs grow g path = Inr self \<longrightarrow>
      (\<exists>m f cats. model self = Some m \<and> forest (regressor_step m) = Some f
         \<and> categories (cat (preprocessor_step m)) = Some cats
         \<and> fst (predict self d h c la lo)
             = Inr (f ((if d \<in> set cats then indicator cats d else replicate (length cats) 0)
                       @ [c, la, lo, hour_sin h, hour_cos h]))))
   \<and> (\<exists>fs' grow' g' path' self' d' h' c' la' lo' v.
        init fs' grow' g' path' = Inr self'
        \<and> fst (predict self' d' h' c' la' lo') = Inr v \<and> \<not> (0 \<le> v \<and> v \<le> 1))"
proof (intro conjI impI)
  assume a: "init fs grow g path = Inr self"
  from init_fitted [OF a] obtain day f where
    self: "self = \<lparr>csv_path = path,
          model = Some \<lparr>preprocessor_step = fitted_pre day,
            regressor_step = \<lparr>n_estimators = 300, max_depth = 12, random_state = Some 42,
              forest = Some f\<rparr>\<rparr>,
          preprocessor = Some (fitted_pre day)\<rparr>"
    by auto
  let ?reg = "\<lparr>n_estimators = 300, max_depth = 12, random_state = Some 42, forest = Some f\<rparr>"
  let ?m = "\<lparr>preprocessor_step = fitted_pre day, regressor_step = ?reg\<rparr>"
  have m: "model self = Some ?m" by (simp add: self)
  have r: "forest (regressor_step ?m) = Some f" by simp
  have k: "categories (cat (preprocessor_step ?m)) = Some (discover [] day)"
    by (simp add: fitted_pre_def)
  have p: "fst (predict self d h c la lo)
      = Inr (f ((if d \<in> set (discover [] day) then indicator (discover [] day) d
                 else replicate (length (discover [] day)) 0)
                @ [c, la, lo, hour_sin h, hour_cos h]))"
    using predict_fitted [OF m, of f d h c la lo] by (simp add: set_discover)
  from m r k p show "\<exists>m f cats. model self = Some m \<and> forest (regressor_step m) = Some f
         \<and> categories (cat (preprocessor_step m)) = Some cats
         \<and> fst (predict self d h c la lo)
             = Inr (f ((if d \<in> set cats then indicator cats d else replicate (length cats) 0)
                       @ [c, la, lo, hour_sin h, hour_cos h]))"
    by blast
next
  have "init (demo_fs 1.5) mean_grower (RandomState 0) ''data.csv'' = Inr (demo_estimator 1.5)"
    by (rule demo_init)
  moreover have "fst (predict (demo_estimator 1.5) (Str ''SA'') 18 100 48.14 11.54) = Inr 1.5"
    by (rule demo_predict)
  moreover have "\<not> (0 \<le> (1.5::real) \<and> (1.5::real) \<le> 1)" by simp
  ultimately show "\<exists>fs' grow' g' path' self' d' h' c' la' lo' v.
        init fs' grow' g' path' = Inr self'
        \<and> fst (predict self' d' h' c' la' lo') = Inr v \<and> \<not> (0 \<le> v \<and> v \<le> 1)"
    by blast
qed

text \<open>Trained on one record with the occupancy rate 1.5, the estimator returns 1.5.\<close>

theorem predict_returns_raw_output_witness:
  "init (demo_fs 1.5) mean_grower (RandomState 0) ''data.csv'' = Inr (demo_estimator 1.5)
   \<and> (\<exists>m f cats. model (demo_estimator 1.5) = Some m \<and> forest (regressor_step m) = Some f
         \<and> categories (cat (preprocessor_step m)) = Some cats
         \<and> fst (predict (demo_estimator 1.5) (Str ''SA'') 18 100 48.14 11.54)
             = Inr (f ((if Str ''SA'' \<in> set cats then indicator cats (Str ''SA'')
                        else replicate (length cats) 0)
                       @ [100, 48.14, 11.54, hour_sin 18, hour_cos 18])))"
proof -
  have a: "init (demo_fs 1.5) mean_grower (RandomState 0) ''data.csv'' = Inr (demo_estimator 1.5)"
    by (rule demo_init)
  from predict_returns_raw_output [of "demo_fs 1.5" mean_grower "RandomState 0" "''data.csv''"
      "demo_estimator 1.5" "Str ''SA''" 18 100 "48.14" "11.54"] a
  show ?thesis by blast
qed




text \<open>
  C8. If the training table has fewer than one row or lacks one of the required columns,
  the construction fails with an error of the class DataShapeError: the constructor returns
  an exception and no estimator.
\<close>

theorem malformed_training_data_fails:
  assumes "fs path = Some df"
    and "nrows df < 1 \<or> (\<exists>c \<in> set required_columns. map_of (columns df) c = None)"
  shows "\<exists>e. init fs grow g path = Inl e \<and> DataShapeError e"
proof (cases "init fs grow g path")
  case (Inl e)
  then show ?thesis using init_error_shape [OF Inl assms(1)] by blast
next
  case (Inr self)
  then show ?thesis using init_columns [OF Inr assms(1)] assms(2) by auto
qed

text \<open>A header-only table, and a table without the \<open>latitude\<close> column.\<close>

theorem malformed_training_data_fails_witness:
  "nrows empty_frame < 1
   \<and> (\<exists>e. init (\<lambda>p. Some empty_frame) mean_grower (RandomState 0) ''data.csv'' = Inl e
        \<and> DataShapeError e)
   \<and> ''latitude'' \<in> set required_columns
   \<and> map_of (columns no_latitude_frame) ''latitude'' = None
   \<and> (\<exists>e. init (\<lambda>p. Some no_latitude_frame) mean_grower (RandomState 0) ''data.csv'' = Inl e
        \<and> DataShapeError e)"
proof -
  have a: "(\<lambda>p. Some empty_frame) ''data.csv'' = Some empty_frame" by simp
  have b: "nrows empty_frame < 1" by (simp add: empty_frame_def)
  then have c: "nrows empty_frame < 1
      \<or> (\<exists>c \<in> set required_columns. map_of (columns empty_frame) c = None)" by simp
  have a': "(\<lambda>p. Some no_latitude_frame) ''data.csv'' = Some no_latitude_frame" by simp
  have m: "''latitude'' \<in> set required_columns" by (simp add: required_columns_def)
  have n: "map_of (columns no_latitude_frame) ''latitude'' = None"
    by (simp add: no_latitude_frame_def)
  from m n have c': "nrows no_latitude_frame < 1
      \<or> (\<exists>c \<in> set required_columns. map_of (columns no_latitude_frame) c = None)" by blast
  from malformed_training_data_fails [OF a c, of mean_grower "RandomState 0"]
    malformed_training_data_fails [OF a' c', of mean_grower "RandomState 0"] b m n
  show ?thesis by blast
qed

text \<open>
  C9. \<open>predict\<close> and \<open>predict_search_time\<close> have no effect on the estimator: after any
  sequence of calls of them every field, the fitted model and the preprocessor among them,
  is what it was before.
\<close>

theorem queries_leave_estimator_unchanged:
  "snd (run_calls self calls) = self"
proof (induction calls)
  case Nil
  show ?case by simp
next
  case (Cons k ks)
  obtain r where r: "run_call self k = (r, self)"
    using run_call_state [of self k] by (cases "run_call self k") simp
  obtain rs where rs: "run_calls self ks = (rs, self)"
    using Cons.IH by (cases "run_calls self ks") simp
  show ?case by (simp add: r rs)
qed

text \<open>Three calls, one with an unseen day type and one with an hour outside the day.\<close>

theorem queries_leave_estimator_unchanged_witness:
  "snd (run_calls (demo_estimator 0.5)
     [Predict (Str ''SA'') 18 100 48.14 11.54, PredictSearchTime (Str ''XX'') 7 100 48.14 11.54,
      Predict (Str ''SA'') 30 100 48.14 11.54]) = demo_estimator 0.5"
  by (rule queries_leave_estimator_unchanged)

text \<open>
  C10. Whenever the fallback branch fires (\<open>p_free < 0.001\<close>) the penalty fires too:
  \<open>predict_search_time\<close> returns \<open>total_capacity * 2 * 1.2 + 2.5 + 10\<close>, which is at
  least 12.5 when the capacity is not negative.
\<close>

theorem fallback_implies_penalty:
  assumes "fst (predict self d h c la lo) = Inr p" and "1 - p < 0.001"
  shows "fst (predict_search_time self d h c la lo) = Inr (c * 2 * 1.2 + 2.5 + 10)
    \<and> (0 \<le> c \<longrightarrow> (\<exists>t. fst (predict_search_time self d h c la lo) = Inr t \<and> 12.5 \<le> t))"
  using assms by (simp add: search_time_of_occupancy)

text \<open>Capacity 100 with \<open>p_free = 0.0005\<close>.\<close>

theorem fallback_implies_penalty_witness:
  "fst (predict (demo_estimator 0.9995) (Str ''SA'') 18 100 48.14 11.54) = Inr 0.9995
   \<and> 1 - (0.9995::real) < 0.001
   \<and> fst (predict_search_time (demo_estimator 0.9995) (Str ''SA'') 18 100 48.14 11.54)
       = Inr (100 * 2 * 1.2 + 2.5 + 10)
   \<and> (0::real) \<le> 100
   \<and> (\<exists>t. fst (predict_search_time (demo_estimator 0.9995) (Str ''SA'') 18 100 48.14 11.54) = Inr t
        \<and> 12.5 \<le> t)"
proof -
  have p: "fst (predict (demo_estimator 0.9995) (Str ''SA'') 18 100 48.14 11.54) = Inr 0.9995"
    by (rule demo_predict)
  have q: "1 - (0.9995::real) < 0.001" by simp
  have z: "(0::real) \<le> 100" by simp
  note r = fallback_implies_penalty [OF p q]
  from r have r1: "fst (predict_search_time (demo_estimator 0.9995) (Str ''SA'') 18 100 48.14 11.54)
       = Inr (100 * 2 * 1.2 + 2.5 + 10)" by (rule conjunct1)
  from r z have r2: "\<exists>t. fst (predict_search_time (demo_estimator 0.9995) (Str ''SA'') 18 100 48.14 11.54) = Inr t
        \<and> 12.5 \<le> t" by blast
  from p q r1 z r2 show ?thesis by blast
qed

end
